theory Spec2Isabelle
  imports Main
begin

section \<open>JSON values and Python dictionaries\<close>

text \<open>
  The wire payloads are Python values built from dict, list, str, int and None. A dict is
  an association list in insertion order with distinct keys (the order Python keeps);
  equality of two such lists implies equality of the dicts. Numbers are integers: no
  payload or branch of the code modelled here inspects a fractional number. A str is the
  list of the bytes of its UTF-8 encoding: equality, emptiness and concatenation of strs
  are those of the byte lists, and the characters of a str are its code points, read off
  by \<open>code_points\<close> below.
\<close>

datatype json =
    JNull
  | JBool bool
  | JInt int
  | JStr string
  | JArr "json list"
  | JObj "(string \<times> json) list"

type_synonym dict = "(string \<times> json) list"

text \<open>\<open>d[k] = v\<close>: replace the value of an existing key in place, else append the key.\<close>

fun dict_set :: "dict \<Rightarrow> string \<Rightarrow> json \<Rightarrow> dict" where
  "dict_set [] k v = [(k, v)]"
| "dict_set (p # ps) k v = (if fst p = k then (k, v) # ps else p # dict_set ps k v)"

text \<open>All keys of a payload, at every nesting depth.\<close>

fun json_keys :: "json \<Rightarrow> string list" where
  "json_keys (JArr xs) = concat (map json_keys xs)"
| "json_keys (JObj kvs) = map fst kvs @ concat (map (\<lambda>kv. json_keys (snd kv)) kvs)"
| "json_keys _ = []"

text \<open>The keys of the object stored under \<open>update\<close> in an update payload.\<close>

definition update_keys :: "json \<Rightarrow> string list" where
  "update_keys payload =
     (case payload of
        JObj kvs \<Rightarrow> (case map_of kvs ''update'' of Some (JObj u) \<Rightarrow> map fst u | _ \<Rightarrow> [])
      | _ \<Rightarrow> [])"

text \<open>
  \<open>if x: d = f(x)\<close> for an \<open>Optional[str]\<close> attribute \<open>x\<close>: Python tests truthiness, so
  both \<open>None\<close> and the empty string take the else branch.
\<close>

definition if_truthy :: "string option \<Rightarrow> (string \<Rightarrow> 'a) \<Rightarrow> 'a \<Rightarrow> 'a" where
  "if_truthy x f d = (case x of None \<Rightarrow> d | Some s \<Rightarrow> if s \<noteq> [] then f s else d)"

section \<open>models/issue.py\<close>

text \<open>
  The fields of \<open>IssueCreate\<close> that share a name with a field of \<open>IssueUpdate\<close> carry the
  prefix \<open>create_\<close>.
\<close>

record IssueCreate =
  project_id :: string
  create_summary :: string
  create_description :: "string option"
  issue_type_id :: string
  create_priority_id :: "string option"
  assignee_account_id :: "string option"
  reporter_account_id :: "string option"
  labels :: "string list"

definition IssueCreate_to_jira_format :: "IssueCreate \<Rightarrow> json" where
  "IssueCreate_to_jira_format self =
     (let fields = [(''project'', JObj [(''id'', JStr (project_id self))]),
                    (''summary'', JStr (create_summary self)),
                    (''issuetype'', JObj [(''id'', JStr (issue_type_id self))])];
          fields = if_truthy (create_description self)
                     (\<lambda>d. dict_set fields ''description''
                        (JObj [(''type'', JStr ''doc''),
                               (''version'', JInt 1),
                               (''content'', JArr [JObj [(''type'', JStr ''paragraph''),
                                  (''content'', JArr [JObj [(''type'', JStr ''text''),
                                                            (''text'', JStr d)]])]])]))
                     fields;
          fields = if_truthy (create_priority_id self)
                     (\<lambda>p. dict_set fields ''priority'' (JObj [(''id'', JStr p)])) fields;
          fields = if_truthy (assignee_account_id self)
                     (\<lambda>a. dict_set fields ''assignee'' (JObj [(''accountId'', JStr a)])) fields;
          fields = if_truthy (reporter_account_id self)
                     (\<lambda>r. dict_set fields ''reporter'' (JObj [(''accountId'', JStr r)])) fields;
          fields = (if labels self \<noteq> []
                    then dict_set fields ''labels'' (JArr (map JStr (labels self)))
                    else fields)
      in JObj [(''fields'', JObj fields)])"

record IssueUpdate =
  summary :: "string option"
  description :: "string option"
  labels_add :: "string list"
  labels_remove :: "string list"
  priority_id :: "string option"

definition IssueUpdate_to_jira_format :: "IssueUpdate \<Rightarrow> json" where
  "IssueUpdate_to_jira_format self =
     (let update = [];
          update = if_truthy (summary self)
                     (\<lambda>s. dict_set update ''summary'' (JArr [JObj [(''set'', JStr s)]])) update;
          update = if_truthy (description self)
                     (\<lambda>d. dict_set update ''description''
                        (JArr [JObj [(''set'',
                           JObj [(''type'', JStr ''doc''),
                                 (''version'', JInt 1),
                                 (''content'', JArr [JObj [(''type'', JStr ''paragraph''),
                                    (''content'', JArr [JObj [(''type'', JStr ''text''),
                                                              (''text'', JStr d)]])]])])]]))
                     update;
          label_operations = [];
          label_operations = foldl (\<lambda>ops label. ops @ [JObj [(''add'', JStr label)]])
                               label_operations (labels_add self);
          label_operations = foldl (\<lambda>ops label. ops @ [JObj [(''remove'', JStr label)]])
                               label_operations (labels_remove self);
          update = (if label_operations \<noteq> []
                    then dict_set update ''labels'' (JArr label_operations)
                    else update);
          update = if_truthy (priority_id self)
                     (\<lambda>p. dict_set update ''priority'' (JArr [JObj [(''set'', JObj [(''id'', JStr p)])]]))
                     update
      in JObj [(''update'', JObj update)])"

record IssueAssignment =
  account_id :: "string option"

definition IssueAssignment_to_jira_format :: "IssueAssignment \<Rightarrow> json" where
  "IssueAssignment_to_jira_format self =
     if_truthy (account_id self)
       (\<lambda>a. JObj [(''accountId'', JStr a)])
       (JObj [(''accountId'', JNull)])"

text \<open>
  The single-paragraph rich-text document in the words of the specification, to compare
  with what the two payload builders write inline.
\<close>

definition spec_rich_text :: "string \<Rightarrow> json" where
  "spec_rich_text s =
     JObj [(''type'', JStr ''doc''),
           (''version'', JInt 1),
           (''content'', JArr [JObj [(''type'', JStr ''paragraph''),
              (''content'', JArr [JObj [(''type'', JStr ''text''), (''text'', JStr s)]])]])]"

text \<open>Reading a field of the object stored under a top-level key of a payload.\<close>

definition payload_field :: "json \<Rightarrow> string \<Rightarrow> string \<Rightarrow> json option" where
  "payload_field payload outer k =
     (case payload of
        JObj kvs \<Rightarrow> (case map_of kvs outer of Some (JObj d) \<Rightarrow> map_of d k | _ \<Rightarrow> None)
      | _ \<Rightarrow> None)"

section \<open>String helpers\<close>

text \<open>
  Python's \<open>str.lower\<close> is Unicode-aware library code. Every definition below that calls it
  takes it as its first parameter \<open>lower\<close>, and every theorem about such a definition holds
  for whatever function \<open>lower\<close> is. On ASCII text \<open>str.lower\<close> maps the letters A to Z and
  keeps every other character; \<open>ascii_lower\<close> is that function, used for the concrete runs,
  all of which are on ASCII text.
\<close>

definition ascii_lower_char :: "char \<Rightarrow> char" where
  "ascii_lower_char c =
     (case map_of (zip ''ABCDEFGHIJKLMNOPQRSTUVWXYZ'' ''abcdefghijklmnopqrstuvwxyz'') c of
        Some d \<Rightarrow> d
      | None \<Rightarrow> c)"

definition ascii_lower :: "string \<Rightarrow> string" where
  "ascii_lower s = map ascii_lower_char s"

text \<open>
  The characters of a str, each as a str of its own: a code point is a lead byte with
  the continuation bytes (\<open>0x80\<close> to \<open>0xBF\<close>) that follow it.
\<close>

definition is_continuation :: "char \<Rightarrow> bool" where
  "is_continuation c = (128 \<le> (of_char c :: nat) \<and> (of_char c :: nat) < 192)"

function code_points :: "string \<Rightarrow> string list" where
  "code_points [] = []"
| "code_points (c # cs) =
     (c # takeWhile is_continuation cs) # code_points (dropWhile is_continuation cs)"
  by pat_completeness auto
termination
  by (relation "measure length") (simp_all add: less_Suc_eq_le length_dropWhile_le)

text \<open>\<open>sep.join(items)\<close> on a list of strings.\<close>

fun join :: "string \<Rightarrow> string list \<Rightarrow> string" where
  "join sep [] = []"
| "join sep [x] = x"
| "join sep (x # y # ys) = x @ sep @ join sep (y # ys)"

text \<open>The decimal text of an integer, as an f-string formats it.\<close>

fun str_of_nat :: "nat \<Rightarrow> string" where
  "str_of_nat n =
     (if n < 10 then [''0123456789'' ! n]
      else str_of_nat (n div 10) @ [''0123456789'' ! (n mod 10)])"

declare str_of_nat.simps [simp del]

definition str_of_int :: "int \<Rightarrow> string" where
  "str_of_int i = (if i < 0 then ''-'' @ str_of_nat (nat (- i)) else str_of_nat (nat i))"

text \<open>The f-string fragment that puts a value between single quotes.\<close>

definition quoted :: "string \<Rightarrow> string" where
  "quoted s = [CHR 0x27] @ s @ [CHR 0x27]"

section \<open>exceptions.py\<close>

datatype jira_class =
    JiraAPIError
  | JiraAuthenticationError
  | JiraPermissionError
  | JiraNotFoundError
  | JiraValidationError
  | JiraRateLimitError
  | JiraServerError

record jira_error =
  cls :: jira_class
  message :: string
  status_code :: "int option"
  response_data :: dict

text \<open>
  \<open>JiraAPIError.__init__\<close>, run by every class of the hierarchy; \<open>c\<close> is the class of the
  object under construction. \<open>response_data or {}\<close> keeps a non-empty dict.
\<close>

definition JiraAPIError_init ::
  "jira_class \<Rightarrow> string \<Rightarrow> int option \<Rightarrow> dict option \<Rightarrow> jira_error" where
  "JiraAPIError_init c msg code data =
     \<lparr>cls = c, message = msg, status_code = code,
      response_data = (case data of None \<Rightarrow> [] | Some d \<Rightarrow> if d \<noteq> [] then d else [])\<rparr>"

text \<open>A parameter with a default value: \<open>None\<close> stands for the argument left out.\<close>

definition default_arg :: "'a option \<Rightarrow> 'a \<Rightarrow> 'a" where
  "default_arg x d = (case x of None \<Rightarrow> d | Some v \<Rightarrow> v)"

definition new_JiraAPIError :: "string \<Rightarrow> int option \<Rightarrow> dict option \<Rightarrow> jira_error" where
  "new_JiraAPIError msg code data = JiraAPIError_init JiraAPIError msg code data"

definition new_JiraAuthenticationError :: "string option \<Rightarrow> jira_error" where
  "new_JiraAuthenticationError msg =
     JiraAPIError_init JiraAuthenticationError (default_arg msg ''Authentication failed'')
       (Some 401) None"

definition new_JiraPermissionError :: "string option \<Rightarrow> jira_error" where
  "new_JiraPermissionError msg =
     JiraAPIError_init JiraPermissionError (default_arg msg ''Permission denied'') (Some 403) None"

definition new_JiraNotFoundError :: "string option \<Rightarrow> jira_error" where
  "new_JiraNotFoundError msg =
     JiraAPIError_init JiraNotFoundError (default_arg msg ''Resource not found'') (Some 404) None"

definition new_JiraValidationError :: "string option \<Rightarrow> jira_error" where
  "new_JiraValidationError msg =
     JiraAPIError_init JiraValidationError (default_arg msg ''Validation failed'') (Some 400) None"

definition new_JiraRateLimitError :: "string option \<Rightarrow> jira_error" where
  "new_JiraRateLimitError msg =
     JiraAPIError_init JiraRateLimitError (default_arg msg ''Rate limit exceeded'') (Some 429) None"

definition new_JiraServerError :: "string option \<Rightarrow> jira_error" where
  "new_JiraServerError msg =
     JiraAPIError_init JiraServerError (default_arg msg ''Internal server error'') (Some 500) None"

text \<open>
  \<open>JiraAPIError.__str__\<close>, inherited unchanged by the six subclasses. \<open>if self.status_code\<close>
  is a truthiness test: a code that is absent or zero takes the second form.
\<close>

definition JiraAPIError_str :: "jira_error \<Rightarrow> string" where
  "JiraAPIError_str self =
     (case status_code self of
        None \<Rightarrow> ''JIRA API Error: '' @ message self
      | Some c \<Rightarrow>
          if c \<noteq> 0 then ''JIRA API Error ('' @ str_of_int c @ ''): '' @ message self
          else ''JIRA API Error: '' @ message self)"

text \<open>
  What a call can raise: an error of the hierarchy above or a Python built-in exception.
  Only \<open>ValueError\<close>, which the services raise themselves, carries its message; \<open>KeyError\<close>
  carries the missing key.
\<close>

datatype exn =
    JiraExn jira_error
  | ValueError string
  | KeyError string
  | AttributeError
  | TypeError

datatype exn_class =
    JiraClass jira_class
  | ValueErrorClass
  | KeyErrorClass
  | AttributeErrorClass
  | TypeErrorClass

fun class_of :: "exn \<Rightarrow> exn_class" where
  "class_of (JiraExn e) = JiraClass (cls e)"
| "class_of (ValueError m) = ValueErrorClass"
| "class_of (KeyError k) = KeyErrorClass"
| "class_of AttributeError = AttributeErrorClass"
| "class_of TypeError = TypeErrorClass"

text \<open>The class of the exception a call raised, \<open>None\<close> when it returned.\<close>

definition raised_class :: "exn + 'a \<Rightarrow> exn_class option" where
  "raised_class r = (case r of Inl e \<Rightarrow> Some (class_of e) | Inr v \<Rightarrow> None)"

section \<open>Dynamically typed values\<close>

text \<open>\<open>v.get(k, d)\<close>: only a dict has the method.\<close>

definition py_get :: "json \<Rightarrow> string \<Rightarrow> json \<Rightarrow> exn + json" where
  "py_get v k d =
     (case v of
        JObj kvs \<Rightarrow> Inr (case map_of kvs k of None \<Rightarrow> d | Some x \<Rightarrow> x)
      | _ \<Rightarrow> Inl AttributeError)"

text \<open>\<open>v[k]\<close> for a string key \<open>k\<close>.\<close>

definition py_getitem :: "json \<Rightarrow> string \<Rightarrow> exn + json" where
  "py_getitem v k =
     (case v of
        JObj kvs \<Rightarrow> (case map_of kvs k of None \<Rightarrow> Inl (KeyError k) | Some x \<Rightarrow> Inr x)
      | _ \<Rightarrow> Inl TypeError)"

text \<open>\<open>v.lower()\<close>: only a str has the method.\<close>

definition py_lower :: "(string \<Rightarrow> string) \<Rightarrow> json \<Rightarrow> exn + string" where
  "py_lower lower v = (case v of JStr s \<Rightarrow> Inr (lower s) | _ \<Rightarrow> Inl AttributeError)"

text \<open>The items a \<open>for\<close> loop over \<open>v\<close> visits: a dict yields its keys, a str its characters.\<close>

definition py_iter :: "json \<Rightarrow> exn + json list" where
  "py_iter v =
     (case v of
        JArr xs \<Rightarrow> Inr xs
      | JObj kvs \<Rightarrow> Inr (map (\<lambda>kv. JStr (fst kv)) kvs)
      | JStr s \<Rightarrow> Inr (map JStr (code_points s))
      | _ \<Rightarrow> Inl TypeError)"

text \<open>Truthiness, as \<open>if v\<close> and \<open>not v\<close> test it.\<close>

definition py_truthy :: "json \<Rightarrow> bool" where
  "py_truthy v =
     (case v of
        JNull \<Rightarrow> False
      | JBool b \<Rightarrow> b
      | JInt i \<Rightarrow> i \<noteq> 0
      | JStr s \<Rightarrow> s \<noteq> []
      | JArr xs \<Rightarrow> xs \<noteq> []
      | JObj kvs \<Rightarrow> kvs \<noteq> [])"

text \<open>The strings of a list whose items are all str; \<open>None\<close> when some item is not.\<close>

fun strs_of :: "json list \<Rightarrow> string list option" where
  "strs_of [] = Some []"
| "strs_of (JStr s # xs) = map_option ((#) s) (strs_of xs)"
| "strs_of (_ # xs) = None"

text \<open>
  The items \<open>sep.join(v)\<close> joins: those of a list of str, the characters of a str, the keys
  of a dict; \<open>None\<close> when the call raises \<open>TypeError\<close>.
\<close>

definition join_items :: "json \<Rightarrow> string list option" where
  "join_items v =
     (case v of
        JArr xs \<Rightarrow> strs_of xs
      | JStr s \<Rightarrow> Some (code_points s)
      | JObj kvs \<Rightarrow> Some (map fst kvs)
      | _ \<Rightarrow> None)"

section \<open>core/client.py: the transport\<close>

text \<open>
  What \<open>_make_request\<close> reads of an \<open>httpx\<close> response: its status, its body, and the outcome
  of \<open>response.json()\<close> (\<open>Inl\<close> the text of the exception it raised).
\<close>

record response =
  response_status_code :: int
  response_content :: string
  response_json :: "string + json"

text \<open>
  The remote system is the state \<open>'s\<close>. The HTTP client takes method, endpoint (joined to
  the base URL), query parameters and JSON body; \<open>Inl e\<close> is \<open>httpx.RequestError\<close> with
  text \<open>e\<close>.
\<close>

type_synonym 's http =
  "string \<Rightarrow> string \<Rightarrow> dict option \<Rightarrow> json option \<Rightarrow> 's \<Rightarrow> (string + response) \<times> 's"

type_synonym 's request_fn =
  "string \<Rightarrow> string \<Rightarrow> dict option \<Rightarrow> json option \<Rightarrow> 's \<Rightarrow> (exn + json) \<times> 's"

text \<open>
  The \<open>try\<close> block that reads \<open>errorMessages\<close> from an error body; it occurs twice in
  \<open>_make_request\<close>, with two different initial values of \<open>error_msg\<close>. Any exception inside it
  is swallowed: a body that is not JSON, a body that is no dict, and a value under
  \<open>errorMessages\<close> that \<open>join\<close> rejects all leave the initial message.
\<close>

definition error_msg_from_body :: "string \<Rightarrow> response \<Rightarrow> string" where
  "error_msg_from_body error_msg response =
     (case response_json response of
        Inl e \<Rightarrow> error_msg
      | Inr error_data \<Rightarrow>
          (case error_data of
             JObj kvs \<Rightarrow>
               (case map_of kvs ''errorMessages'' of
                  None \<Rightarrow> error_msg
                | Some v \<Rightarrow>
                    (case join_items v of None \<Rightarrow> error_msg | Some items \<Rightarrow> join ''; '' items))
           | _ \<Rightarrow> error_msg))"

text \<open>The status dispatch of \<open>_make_request\<close>, in the order of the source.\<close>

definition handle_response :: "response \<Rightarrow> exn + json" where
  "handle_response response =
     (let status = response_status_code response in
      if status = 401 then
        Inl (JiraExn (new_JiraAuthenticationError (Some ''Invalid credentials or expired token'')))
      else if status = 403 then
        Inl (JiraExn (new_JiraPermissionError (Some ''Insufficient permissions for this operation'')))
      else if status = 404 then
        Inl (JiraExn (new_JiraNotFoundError (Some ''Resource not found'')))
      else if status = 400 then
        Inl (JiraExn (new_JiraValidationError (Some (error_msg_from_body ''Bad request'' response))))
      else if status = 429 then
        Inl (JiraExn (new_JiraRateLimitError (Some ''Rate limit exceeded'')))
      else if status \<ge> 500 then
        Inl (JiraExn (new_JiraServerError (Some (''Server error: '' @ str_of_int status))))
      else if status \<ge> 400 then
        Inl (JiraExn (new_JiraAPIError
               (error_msg_from_body (''HTTP '' @ str_of_int status) response) (Some status) None))
      else if status = 204 \<or> response_content response = [] then
        Inr (JObj [])
      else
        (case response_json response of
           Inr v \<Rightarrow> Inr v
         | Inl e \<Rightarrow>
             Inl (JiraExn (new_JiraAPIError (''Failed to parse response JSON: '' @ e) None None))))"

definition make_request :: "'s http \<Rightarrow> 's request_fn" where
  "make_request client_request method endpoint params json_data s =
     (case client_request method endpoint params json_data s of
        (Inl e, s1) \<Rightarrow> (Inl (JiraExn (new_JiraAPIError (''Request failed: '' @ e) None None)), s1)
      | (Inr response, s1) \<Rightarrow> (handle_response response, s1))"

section \<open>core/client.py: issue types and issue creation\<close>

definition get_project_issue_types :: "'s request_fn \<Rightarrow> string \<Rightarrow> 's \<Rightarrow> (exn + json) \<times> 's" where
  "get_project_issue_types request project_key s =
     (case request ''GET'' (''project/'' @ project_key) None None s of
        (Inl e, s1) \<Rightarrow> (Inl e, s1)
      | (Inr project_data, s1) \<Rightarrow> (py_get project_data ''issueTypes'' (JArr []), s1))"

text \<open>
  The \<open>for\<close> loop of \<open>get_issue_type_id_by_name\<close>: \<open>Inr (Some v)\<close> when it returns \<open>v\<close>,
  \<open>Inr None\<close> when it ends without a match, \<open>Inl\<close> when an item makes it raise.
\<close>

fun find_issue_type ::
  "(string \<Rightarrow> string) \<Rightarrow> json list \<Rightarrow> string \<Rightarrow> exn + json option" where
  "find_issue_type lower [] issue_type_name = Inr None"
| "find_issue_type lower (issue_type # rest) issue_type_name =
     (case py_get issue_type ''name'' (JStr []) of
        Inl e \<Rightarrow> Inl e
      | Inr n \<Rightarrow>
          (case py_lower lower n of
             Inl e \<Rightarrow> Inl e
           | Inr l \<Rightarrow>
               if l = lower issue_type_name
               then (case py_getitem issue_type ''id'' of Inl e \<Rightarrow> Inl e | Inr v \<Rightarrow> Inr (Some v))
               else find_issue_type lower rest issue_type_name))"

text \<open>The comprehension \<open>[it.get("name", "") for it in issue_types]\<close>.\<close>

fun available_names :: "json list \<Rightarrow> exn + json list" where
  "available_names [] = Inr []"
| "available_names (it # rest) =
     (case py_get it ''name'' (JStr []) of
        Inl e \<Rightarrow> Inl e
      | Inr n \<Rightarrow> (case available_names rest of Inl e \<Rightarrow> Inl e | Inr ns \<Rightarrow> Inr (n # ns)))"

definition get_issue_type_id_by_name ::
  "(string \<Rightarrow> string) \<Rightarrow> 's request_fn \<Rightarrow> string \<Rightarrow> string \<Rightarrow> 's \<Rightarrow> (exn + json) \<times> 's" where
  "get_issue_type_id_by_name lower request project_key issue_type_name s =
     (case get_project_issue_types request project_key s of
        (Inl e, s1) \<Rightarrow> (Inl e, s1)
      | (Inr issue_types, s1) \<Rightarrow>
          (case py_iter issue_types of
             Inl e \<Rightarrow> (Inl e, s1)
           | Inr items \<Rightarrow>
               (case find_issue_type lower items issue_type_name of
                  Inl e \<Rightarrow> (Inl e, s1)
                | Inr (Some v) \<Rightarrow> (Inr v, s1)
                | Inr None \<Rightarrow>
                    (case available_names items of
                       Inl e \<Rightarrow> (Inl e, s1)
                     | Inr available_types \<Rightarrow>
                         (case strs_of available_types of
                            None \<Rightarrow> (Inl TypeError, s1)
                          | Some names \<Rightarrow>
                              (Inl (JiraExn (new_JiraValidationError (Some
                                 (''Issue type '' @ quoted issue_type_name
                                  @ '' not found in project '' @ quoted project_key
                                  @ ''. Available types: '' @ join '', '' names)))), s1))))))"

text \<open>
  \<open>JiraClient.create_issue\<close>. The method \<open>get_issue\<close> it ends with validates the fetched
  document with the \<open>Issue\<close> model; it is a parameter here.
\<close>

definition JiraClient_create_issue ::
  "'s request_fn \<Rightarrow> (json \<Rightarrow> 's \<Rightarrow> (exn + 'i) \<times> 's) \<Rightarrow> IssueCreate \<Rightarrow> 's \<Rightarrow> (exn + 'i) \<times> 's" where
  "JiraClient_create_issue request get_issue issue_data s =
     (let json_data = IssueCreate_to_jira_format issue_data in
      case request ''POST'' ''issue'' None (Some json_data) s of
        (Inl e, s1) \<Rightarrow> (Inl e, s1)
      | (Inr data, s1) \<Rightarrow>
          (case py_get data ''key'' JNull of
             Inl e \<Rightarrow> (Inl e, s1)
           | Inr issue_key \<Rightarrow>
               if \<not> py_truthy issue_key
               then (Inl (JiraExn (new_JiraAPIError ''Issue created but key not returned''
                                     None None)), s1)
               else get_issue issue_key s1))"

section \<open>models/user.py and the transition models\<close>

record User =
  user_account_id :: string
  email_address :: "string option"
  display_name :: string
  active :: bool
  avatar_urls :: "(string \<times> string) list option"
  time_zone :: "string option"
  user_locale :: "string option"

record IssueStatus =
  status_id :: string
  status_name :: string
  status_description :: string
  category :: "dict option"

record IssueTransition =
  tr_id :: string
  tr_name :: string
  tr_to :: IssueStatus
  has_screen :: bool

record IssueTransitionRequest =
  transition_id :: string
  comment :: "string option"
  resolution_name :: "string option"

section \<open>services\<close>

text \<open>
  The services call the methods of the client object they hold. Each method takes the
  state of the remote system and returns its result with the new state.
\<close>

record ('s, 'i) JiraClient =
  search_users :: "string \<Rightarrow> int \<Rightarrow> 's \<Rightarrow> (exn + User list) \<times> 's"
  client_create_issue :: "IssueCreate \<Rightarrow> 's \<Rightarrow> (exn + 'i) \<times> 's"
  assign_issue :: "string \<Rightarrow> IssueAssignment \<Rightarrow> 's \<Rightarrow> (exn + unit) \<times> 's"
  get_issue_transitions :: "string \<Rightarrow> 's \<Rightarrow> (exn + IssueTransition list) \<times> 's"
  transition_issue :: "string \<Rightarrow> IssueTransitionRequest \<Rightarrow> 's \<Rightarrow> (exn + unit) \<times> 's"

text \<open>The test of the loop in \<open>get_user_by_email\<close>.\<close>

definition email_matches :: "(string \<Rightarrow> string) \<Rightarrow> User \<Rightarrow> string \<Rightarrow> bool" where
  "email_matches lower user email =
     (case email_address user of
        None \<Rightarrow> False
      | Some a \<Rightarrow> a \<noteq> [] \<and> lower a = lower email)"

fun first_email_match :: "(string \<Rightarrow> string) \<Rightarrow> User list \<Rightarrow> string \<Rightarrow> User option" where
  "first_email_match lower [] email = None"
| "first_email_match lower (user # rest) email =
     (if email_matches lower user email then Some user
      else first_email_match lower rest email)"

definition get_user_by_email ::
  "(string \<Rightarrow> string) \<Rightarrow> ('s, 'i) JiraClient \<Rightarrow> string \<Rightarrow> 's \<Rightarrow> (exn + User option) \<times> 's" where
  "get_user_by_email lower client email s =
     (case search_users client email 1 s of
        (Inl e, s1) \<Rightarrow> (Inl e, s1)
      | (Inr users, s1) \<Rightarrow> (Inr (first_email_match lower users email), s1))"

text \<open>
  \<open>IssueService.create_issue\<close>. An instance of the \<open>User\<close> model is always truthy, so
  \<open>if assignee\<close> tests for \<open>None\<close>.
\<close>

definition create_issue ::
  "(string \<Rightarrow> string) \<Rightarrow> ('s, 'i) JiraClient \<Rightarrow> string \<Rightarrow> string \<Rightarrow> string \<Rightarrow> string option \<Rightarrow> string option \<Rightarrow>
     string option \<Rightarrow> string list option \<Rightarrow> 's \<Rightarrow> (exn + 'i) \<times> 's" where
  "create_issue lower client pid summ itid descr prio assignee_email lbls s =
     (case if_truthy assignee_email
             (\<lambda>email. get_user_by_email lower client email s)
             (Inr None, s) of
        (Inl e, s1) \<Rightarrow> (Inl e, s1)
      | (Inr assignee, s1) \<Rightarrow>
          (let account = (case assignee of None \<Rightarrow> None | Some u \<Rightarrow> Some (user_account_id u));
               issue_data = \<lparr>project_id = pid, create_summary = summ,
                             create_description = descr, issue_type_id = itid,
                             create_priority_id = prio, assignee_account_id = account,
                             reporter_account_id = None,
                             labels = (case lbls of None \<Rightarrow> [] | Some l \<Rightarrow> l)\<rparr>
           in client_create_issue client issue_data s1))"

definition assign_issue_by_email ::
  "(string \<Rightarrow> string) \<Rightarrow> ('s, 'i) JiraClient \<Rightarrow> string \<Rightarrow> string \<Rightarrow> 's \<Rightarrow>
     (exn + unit) \<times> 's" where
  "assign_issue_by_email lower client issue_key assignee_email s =
     (case get_user_by_email lower client assignee_email s of
        (Inl e, s1) \<Rightarrow> (Inl e, s1)
      | (Inr None, s1) \<Rightarrow>
          (Inl (ValueError (''User with email '' @ quoted assignee_email @ '' not found'')), s1)
      | (Inr (Some assignee), s1) \<Rightarrow>
          assign_issue client issue_key \<lparr>account_id = Some (user_account_id assignee)\<rparr> s1)"

text \<open>
  The loop of \<open>transition_issue_by_name\<close>: the id of the first transition whose name
  matches, \<open>None\<close> when the loop ends without a \<open>break\<close>.
\<close>

fun find_transition_id ::
  "(string \<Rightarrow> string) \<Rightarrow> IssueTransition list \<Rightarrow> string \<Rightarrow> string option" where
  "find_transition_id lower [] transition_name = None"
| "find_transition_id lower (transition # rest) transition_name =
     (if lower (tr_name transition) = lower transition_name then Some (tr_id transition)
      else find_transition_id lower rest transition_name)"

definition transition_issue_by_name ::
  "(string \<Rightarrow> string) \<Rightarrow> ('s, 'i) JiraClient \<Rightarrow> string \<Rightarrow> string \<Rightarrow> string option \<Rightarrow> string option \<Rightarrow> 's \<Rightarrow>
     (exn + unit) \<times> 's" where
  "transition_issue_by_name lower client issue_key transition_name cmt resolution s =
     (case get_issue_transitions client issue_key s of
        (Inl e, s1) \<Rightarrow> (Inl e, s1)
      | (Inr transitions, s1) \<Rightarrow>
          if_truthy (find_transition_id lower transitions transition_name)
            (\<lambda>tid. transition_issue client issue_key
                      \<lparr>transition_id = tid, comment = cmt, resolution_name = resolution\<rparr> s1)
            (Inl (ValueError (''Transition '' @ quoted transition_name
                              @ '' not found. Available transitions: ''
                              @ join '', '' (map tr_name transitions))), s1))"

section \<open>Reference notions and fixtures\<close>



text \<open>
  A remote system for concrete runs, in the manner of the mocks of the unit tests: its
  state is the list of requests received so far. A \<open>POST\<close> answers with the id and key of a
  new issue, every other request with a project that has the issue types Epic and Bug.
\<close>

type_synonym sent = "(string \<times> string \<times> json option) list"

definition fixture_http :: "sent http" where
  "fixture_http method endpoint params json_data log =
     (Inr (if method = ''POST''
           then \<lparr>response_status_code = 201, response_content = ''{..}'',
                 response_json = Inr (JObj [(''id'', JStr ''10100''), (''key'', JStr ''PROJ-1'')])\<rparr>
           else \<lparr>response_status_code = 200, response_content = ''{..}'',
                 response_json = Inr (JObj [(''id'', JStr ''10000''), (''key'', JStr ''PROJ''),
                   (''issueTypes'', JArr [JObj [(''id'', JStr ''10000''), (''name'', JStr ''Epic'')],
                                          JObj [(''id'', JStr ''10004''), (''name'', JStr ''Bug'')]])])\<rparr>),
      log @ [(method, endpoint, json_data)])"

definition fixture_client :: "User list \<Rightarrow> IssueTransition list \<Rightarrow> (sent, json) JiraClient" where
  "fixture_client users transitions =
     \<lparr>search_users = (\<lambda>query max_results log. (Inr users, log)),
      client_create_issue =
        JiraClient_create_issue (make_request fixture_http) (\<lambda>issue_key log. (Inr issue_key, log)),
      assign_issue = (\<lambda>issue_key assignment log. (Inr (), log)),
      get_issue_transitions = (\<lambda>issue_key log. (Inr transitions, log)),
      transition_issue = (\<lambda>issue_key transition_request log. (Inr (), log))\<rparr>"

definition fixture_user :: User where
  "fixture_user =
     \<lparr>user_account_id = ''12345'', email_address = Some ''john@example.com'',
      display_name = ''John Doe'', active = True, avatar_urls = None, time_zone = None,
      user_locale = None\<rparr>"

definition fixture_transition :: IssueTransition where
  "fixture_transition =
     \<lparr>tr_id = ''11'', tr_name = ''Start Progress'',
      tr_to = \<lparr>status_id = ''2'', status_name = ''In Progress'',
               status_description = ''Work in progress'', category = None\<rparr>,
      has_screen = True\<rparr>"

definition fixture_transitions :: "IssueTransition list" where
  "fixture_transitions =
     [fixture_transition,
      \<lparr>tr_id = ''31'', tr_name = ''Done'',
       tr_to = \<lparr>status_id = ''3'', status_name = ''Done'',
                status_description = ''Work is done'', category = None\<rparr>,
       has_screen = False\<rparr>]"

text \<open>An HTTP client that gives the same outcome to every request and keeps the state.\<close>

definition const_http :: "string + response \<Rightarrow> 's http" where
  "const_http outcome method endpoint params json_data s = (outcome, s)"

text \<open>Responses for concrete runs: a body that is not JSON, no body, and a JSON error body.\<close>

definition error_page :: "int \<Rightarrow> response" where
  "error_page status =
     \<lparr>response_status_code = status, response_content = ''<html>'',
      response_json = Inl ''Expecting value''\<rparr>"

definition no_content :: "int \<Rightarrow> response" where
  "no_content status =
     \<lparr>response_status_code = status, response_content = [],
      response_json = Inl ''Expecting value''\<rparr>"

definition error_body :: dict where
  "error_body =
     [(''errorMessages'', JArr [JStr ''Field is required'', JStr ''Bad key'']),
      (''errors'', JObj [])]"

definition validation_errors :: response where
  "validation_errors =
     \<lparr>response_status_code = 400, response_content = ''{..}'',
      response_json = Inr (JObj error_body)\<rparr>"

text \<open>Whether a parsed body is a JSON object, a Python dict.\<close>

definition is_object :: "json \<Rightarrow> bool" where
  "is_object v = (case v of JObj kvs \<Rightarrow> True | _ \<Rightarrow> False)"

text \<open>Every key of a dict, its own and those nested in its values.\<close>

definition obj_keys :: "dict \<Rightarrow> string set" where
  "obj_keys kvs = set (json_keys (JObj kvs))"

section \<open>Payload builders: helper lemmas\<close>

lemma foldl_append_map: "foldl (\<lambda>ops x. ops @ [f x]) acc xs = acc @ map f xs"
  by (induction xs arbitrary: acc) simp_all

lemma label_operations_eq:
  "foldl (\<lambda>ops label. ops @ [JObj [(''remove'', JStr label)]])
     (foldl (\<lambda>ops label. ops @ [JObj [(''add'', JStr label)]]) [] adds) rems
   = map (\<lambda>l. JObj [(''add'', JStr l)]) adds @ map (\<lambda>l. JObj [(''remove'', JStr l)]) rems"
  by (simp add: foldl_append_map)

lemma if_truthy_None: "if_truthy None f d = d"
  by (simp add: if_truthy_def)

lemma if_truthy_empty: "if_truthy (Some []) f d = d"
  by (simp add: if_truthy_def)

lemma if_truthy_Some: "s \<noteq> [] \<Longrightarrow> if_truthy (Some s) f d = f s"
  by (simp add: if_truthy_def)

lemma map_of_dict_set:
  "map_of (dict_set d k v) k' = (if k' = k then Some v else map_of d k')"
  by (induction d) auto

lemma map_of_if_truthy_other:
  "k' \<noteq> k \<Longrightarrow> map_of (if_truthy x (\<lambda>s. dict_set d k (g s)) d) k' = map_of d k'"
  by (cases x) (simp_all add: if_truthy_def map_of_dict_set)

text \<open>
  The update payload in closed form: the four optional entries in the order the builder
  writes them, add operations before remove operations.
\<close>

lemma update_shape:
  "IssueUpdate_to_jira_format self =
     JObj [(''update'', JObj (
       (if_truthy (summary self) (\<lambda>s. [(''summary'', JArr [JObj [(''set'', JStr s)]])]) [])
     @ (if_truthy (description self)
          (\<lambda>d. [(''description'', JArr [JObj [(''set'', spec_rich_text d)]])]) [])
     @ (if labels_add self = [] \<and> labels_remove self = [] then []
        else [(''labels'', JArr (map (\<lambda>l. JObj [(''add'', JStr l)]) (labels_add self)
                                 @ map (\<lambda>l. JObj [(''remove'', JStr l)]) (labels_remove self)))])
     @ (if_truthy (priority_id self)
          (\<lambda>p. [(''priority'', JArr [JObj [(''set'', JObj [(''id'', JStr p)])]])]) [])))]"
  by (simp add: IssueUpdate_to_jira_format_def if_truthy_def spec_rich_text_def Let_def
        label_operations_eq split: option.splits)

lemma obj_keys_append: "obj_keys (a @ b) = obj_keys a \<union> obj_keys b"
  by (auto simp: obj_keys_def)

lemma obj_keys_Nil: "obj_keys [] = {}"
  by (simp add: obj_keys_def)

lemma set_concat_const: "set (concat (map (\<lambda>l. [k]) ls)) \<subseteq> {k}"
  by (induction ls) simp_all

lemma keys_summary_part:
  "obj_keys (if_truthy x (\<lambda>s. [(''summary'', JArr [JObj [(''set'', JStr s)]])]) [])
     \<subseteq> {''summary'', ''set''}"
  by (cases x) (simp_all add: obj_keys_def if_truthy_def)

lemma keys_description_part:
  "obj_keys (if_truthy x (\<lambda>d. [(''description'', JArr [JObj [(''set'', spec_rich_text d)]])]) [])
     \<subseteq> {''description'', ''set'', ''type'', ''version'', ''content'', ''text''}"
  by (cases x) (simp_all add: obj_keys_def if_truthy_def spec_rich_text_def)

lemma keys_labels_part:
  "obj_keys [(''labels'', JArr (map (\<lambda>l. JObj [(''add'', JStr l)]) adds
                                 @ map (\<lambda>l. JObj [(''remove'', JStr l)]) rems))]
     \<subseteq> {''labels'', ''add'', ''remove''}"
  using set_concat_const [of "''add''" adds] set_concat_const [of "''remove''" rems]
  by (auto simp: obj_keys_def comp_def)

lemma keys_priority_part:
  "obj_keys (if_truthy x (\<lambda>p. [(''priority'', JArr [JObj [(''set'', JObj [(''id'', JStr p)])]])]) [])
     \<subseteq> {''priority'', ''set'', ''id''}"
  by (cases x) (simp_all add: obj_keys_def if_truthy_def)

lemma update_json_keys:
  "set (json_keys (IssueUpdate_to_jira_format self)) =
     insert ''update'' (
       obj_keys (if_truthy (summary self) (\<lambda>s. [(''summary'', JArr [JObj [(''set'', JStr s)]])]) [])
     \<union> obj_keys (if_truthy (description self)
          (\<lambda>d. [(''description'', JArr [JObj [(''set'', spec_rich_text d)]])]) [])
     \<union> obj_keys (if labels_add self = [] \<and> labels_remove self = [] then []
        else [(''labels'', JArr (map (\<lambda>l. JObj [(''add'', JStr l)]) (labels_add self)
                                 @ map (\<lambda>l. JObj [(''remove'', JStr l)]) (labels_remove self)))])
     \<union> obj_keys (if_truthy (priority_id self)
          (\<lambda>p. [(''priority'', JArr [JObj [(''set'', JObj [(''id'', JStr p)])]])]) []))"
  unfolding update_shape obj_keys_append [symmetric]
  by (simp add: obj_keys_def)

lemma summary_key_absent:
  assumes "summary self = None \<or> summary self = Some []"
  shows "''summary'' \<notin> set (json_keys (IssueUpdate_to_jira_format self))"
  using assms keys_description_part [of "description self"]
    keys_labels_part [of "labels_add self" "labels_remove self"]
    keys_priority_part [of "priority_id self"]
  by (auto simp: update_json_keys if_truthy_None if_truthy_empty obj_keys_Nil)

lemma description_key_absent:
  assumes "description self = None \<or> description self = Some []"
  shows "''description'' \<notin> set (json_keys (IssueUpdate_to_jira_format self))"
  using assms keys_summary_part [of "summary self"]
    keys_labels_part [of "labels_add self" "labels_remove self"]
    keys_priority_part [of "priority_id self"]
  by (auto simp: update_json_keys if_truthy_None if_truthy_empty obj_keys_Nil)

lemma priority_key_absent:
  assumes "priority_id self = None \<or> priority_id self = Some []"
  shows "''priority'' \<notin> set (json_keys (IssueUpdate_to_jira_format self))"
  using assms keys_summary_part [of "summary self"]
    keys_description_part [of "description self"]
    keys_labels_part [of "labels_add self" "labels_remove self"]
  by (auto simp: update_json_keys if_truthy_None if_truthy_empty obj_keys_Nil)

lemma labels_key_absent:
  assumes "labels_add self = []" "labels_remove self = []"
  shows "''labels'' \<notin> set (json_keys (IssueUpdate_to_jira_format self))"
  using assms keys_summary_part [of "summary self"]
    keys_description_part [of "description self"]
    keys_priority_part [of "priority_id self"]
  by (auto simp: update_json_keys obj_keys_Nil)

lemma create_description:
  "s \<noteq> [] \<Longrightarrow>
   payload_field (IssueCreate_to_jira_format (c\<lparr>create_description := Some s\<rparr>))
     ''fields'' ''description'' = Some (spec_rich_text s)"
  by (simp add: IssueCreate_to_jira_format_def payload_field_def Let_def if_truthy_Some
        map_of_if_truthy_other map_of_dict_set spec_rich_text_def del: dict_set.simps)

lemma update_description:
  "s \<noteq> [] \<Longrightarrow>
   payload_field (IssueUpdate_to_jira_format (u\<lparr>description := Some s\<rparr>))
     ''update'' ''description'' = Some (JArr [JObj [(''set'', spec_rich_text s)]])"
  by (cases "summary u")
     (simp_all add: update_shape payload_field_def if_truthy_def)

section \<open>Payload builders: the partial update\<close>

text \<open>
  C1 (as amended). An \<open>IssueUpdate\<close> with summary, description and priority id unset and
  both label lists empty yields the payload \<open>{"update": {}}\<close>: the object whose single key
  \<open>update\<close> holds an empty object, an empty update with no field key at all.
\<close>

theorem issue_update_empty_delta:
  assumes "summary self = None" and "description self = None" and "priority_id self = None"
    and "labels_add self = []" and "labels_remove self = []"
  shows "IssueUpdate_to_jira_format self = JObj [(''update'', JObj [])]
       \<and> update_keys (IssueUpdate_to_jira_format self) = []"
  using assms by (simp add: update_shape if_truthy_None update_keys_def)

text \<open>C1, witness: the delta \<open>IssueUpdate()\<close> built with no argument.\<close>

theorem issue_update_empty_delta_witness:
  "IssueUpdate_to_jira_format
     \<lparr>summary = None, description = None, labels_add = [], labels_remove = [],
      priority_id = None\<rparr> = JObj [(''update'', JObj [])]"
  using issue_update_empty_delta
    [of "\<lparr>summary = None, description = None, labels_add = [], labels_remove = [],
          priority_id = None\<rparr>"]
  by simp

text \<open>
  C1, counterexample to the claim as stated: the payload of the empty delta is not the
  empty object \<open>{}\<close>, since the builder always wraps the update in \<open>{"update": ...}\<close>.
\<close>

theorem issue_update_empty_delta_not_empty_object:
  "IssueUpdate_to_jira_format
     \<lparr>summary = None, description = None, labels_add = [], labels_remove = [],
      priority_id = None\<rparr> \<noteq> JObj []"
  by (simp add: update_shape if_truthy_None)

text \<open>
  C5. A field left unset never appears as a key of the update payload, at any depth:
  no \<open>summary\<close>, \<open>description\<close> or \<open>priority\<close> key for an unset summary, description or
  priority id, and no \<open>labels\<close> key when both label lists are empty.
\<close>

theorem issue_update_unset_fields_absent:
  "(summary self = None \<longrightarrow>
      ''summary'' \<notin> set (json_keys (IssueUpdate_to_jira_format self))) \<and>
   (description self = None \<longrightarrow>
      ''description'' \<notin> set (json_keys (IssueUpdate_to_jira_format self))) \<and>
   (priority_id self = None \<longrightarrow>
      ''priority'' \<notin> set (json_keys (IssueUpdate_to_jira_format self))) \<and>
   (labels_add self = [] \<and> labels_remove self = [] \<longrightarrow>
      ''labels'' \<notin> set (json_keys (IssueUpdate_to_jira_format self)))"
  using summary_key_absent [of self] description_key_absent [of self]
    priority_key_absent [of self] labels_key_absent [of self]
  by blast

text \<open>
  C5, witness: a delta that sets only the description and one label to add, and a delta
  that sets only the summary and the priority.
\<close>

theorem issue_update_unset_fields_absent_witness:
  "''summary'' \<notin> set (json_keys (IssueUpdate_to_jira_format
      \<lparr>summary = None, description = Some ''Updated description'', labels_add = [''new''],
       labels_remove = [], priority_id = None\<rparr>))
   \<and> ''priority'' \<notin> set (json_keys (IssueUpdate_to_jira_format
      \<lparr>summary = None, description = Some ''Updated description'', labels_add = [''new''],
       labels_remove = [], priority_id = None\<rparr>))
   \<and> ''description'' \<notin> set (json_keys (IssueUpdate_to_jira_format
      \<lparr>summary = Some ''Updated summary'', description = None, labels_add = [],
       labels_remove = [], priority_id = Some ''3''\<rparr>))
   \<and> ''labels'' \<notin> set (json_keys (IssueUpdate_to_jira_format
      \<lparr>summary = Some ''Updated summary'', description = None, labels_add = [],
       labels_remove = [], priority_id = Some ''3''\<rparr>))"
  using issue_update_unset_fields_absent
      [of "\<lparr>summary = None, description = Some ''Updated description'',
            labels_add = [''new''], labels_remove = [], priority_id = None\<rparr>"]
    issue_update_unset_fields_absent
      [of "\<lparr>summary = Some ''Updated summary'', description = None, labels_add = [],
            labels_remove = [], priority_id = Some ''3''\<rparr>"]
  by simp

text \<open>
  C9. A summary, description or priority id explicitly set to the empty string leaves no
  key for that field in the payload, and the payload is the one of the same delta with the
  field unset: the builder tests truthiness, so the empty string cannot clear a field.
\<close>

theorem issue_update_empty_string_is_unset:
  "(summary self = Some [] \<longrightarrow>
      ''summary'' \<notin> set (json_keys (IssueUpdate_to_jira_format self)) \<and>
      IssueUpdate_to_jira_format self = IssueUpdate_to_jira_format (self\<lparr>summary := None\<rparr>)) \<and>
   (description self = Some [] \<longrightarrow>
      ''description'' \<notin> set (json_keys (IssueUpdate_to_jira_format self)) \<and>
      IssueUpdate_to_jira_format self
        = IssueUpdate_to_jira_format (self\<lparr>description := None\<rparr>)) \<and>
   (priority_id self = Some [] \<longrightarrow>
      ''priority'' \<notin> set (json_keys (IssueUpdate_to_jira_format self)) \<and>
      IssueUpdate_to_jira_format self
        = IssueUpdate_to_jira_format (self\<lparr>priority_id := None\<rparr>))"
  using summary_key_absent [of self] description_key_absent [of self]
    priority_key_absent [of self]
  by (simp add: update_shape if_truthy_None if_truthy_empty)

text \<open>
  C9, witness: a delta whose three optional strings are all the empty string; only its
  labels reach the payload.
\<close>

theorem issue_update_empty_string_is_unset_witness:
  "IssueUpdate_to_jira_format
      \<lparr>summary = Some [], description = Some [], labels_add = [''new''],
       labels_remove = [''old''], priority_id = Some []\<rparr>
   = JObj [(''update'', JObj [(''labels'', JArr [JObj [(''add'', JStr ''new'')],
                                                 JObj [(''remove'', JStr ''old'')]])])]
   \<and> ''summary'' \<notin> set (json_keys (IssueUpdate_to_jira_format
      \<lparr>summary = Some [], description = Some [], labels_add = [''new''],
       labels_remove = [''old''], priority_id = Some []\<rparr>))"
  using issue_update_empty_string_is_unset
      [of "\<lparr>summary = Some [], description = Some [], labels_add = [''new''],
            labels_remove = [''old''], priority_id = Some []\<rparr>"]
  by (simp add: update_shape if_truthy_None if_truthy_empty)

section \<open>Payload builders: rich text and assignment\<close>

text \<open>
  C6. For every non-empty string \<open>s\<close>, the description written into a create payload is
  exactly the document \<open>{"type": "doc", "version": 1, "content": [{"type": "paragraph",
  "content": [{"type": "text", "text": s}]}]}\<close>, and the update payload sets the
  description to that same document.
\<close>

theorem rich_text_encoding:
  "s \<noteq> [] \<Longrightarrow>
   payload_field (IssueCreate_to_jira_format (c\<lparr>create_description := Some s\<rparr>))
       ''fields'' ''description''
     = Some (JObj [(''type'', JStr ''doc''), (''version'', JInt 1),
              (''content'', JArr [JObj [(''type'', JStr ''paragraph''),
                 (''content'', JArr [JObj [(''type'', JStr ''text''), (''text'', JStr s)]])]])])
   \<and> payload_field (IssueUpdate_to_jira_format (u\<lparr>description := Some s\<rparr>))
       ''update'' ''description''
     = Some (JArr [JObj [(''set'',
              JObj [(''type'', JStr ''doc''), (''version'', JInt 1),
              (''content'', JArr [JObj [(''type'', JStr ''paragraph''),
                 (''content'', JArr [JObj [(''type'', JStr ''text''), (''text'', JStr s)]])]])])]])"
  using create_description [of s c] update_description [of s u]
  by (simp add: spec_rich_text_def)

text \<open>C6, witness: the description of the end-to-end scenario, in both builders.\<close>

theorem rich_text_encoding_witness:
  "payload_field (IssueCreate_to_jira_format
       \<lparr>project_id = ''10000'', create_summary = ''Test issue'',
        create_description = Some ''Test description'', issue_type_id = ''10001'',
        create_priority_id = None, assignee_account_id = None, reporter_account_id = None,
        labels = []\<rparr>) ''fields'' ''description''
     = Some (spec_rich_text ''Test description'')
   \<and> payload_field (IssueUpdate_to_jira_format
       \<lparr>summary = None, description = Some ''Test description'', labels_add = [],
        labels_remove = [], priority_id = None\<rparr>) ''update'' ''description''
     = Some (JArr [JObj [(''set'', spec_rich_text ''Test description'')]])"
  using rich_text_encoding
      [of "''Test description''"
          "\<lparr>project_id = ''10000'', create_summary = ''Test issue'',
            create_description = None, issue_type_id = ''10001'',
            create_priority_id = None, assignee_account_id = None,
            reporter_account_id = None, labels = []\<rparr>"
          "\<lparr>summary = None, description = None, labels_add = [],
            labels_remove = [], priority_id = None\<rparr>"]
  by (simp add: spec_rich_text_def)

text \<open>
  C7. The assignment payload of the account id \<open>X\<close> is \<open>{"accountId": "X"}\<close>, that of an
  unassignment is \<open>{"accountId": null}\<close>, and for every non-empty account id the payload
  carries that id and differs from the payload of the unassignment.
\<close>

theorem assignment_payload:
  "IssueAssignment_to_jira_format \<lparr>account_id = Some ''X''\<rparr> = JObj [(''accountId'', JStr ''X'')]
   \<and> IssueAssignment_to_jira_format \<lparr>account_id = None\<rparr> = JObj [(''accountId'', JNull)]
   \<and> (x \<noteq> [] \<longrightarrow>
        IssueAssignment_to_jira_format \<lparr>account_id = Some x\<rparr> = JObj [(''accountId'', JStr x)]
        \<and> IssueAssignment_to_jira_format \<lparr>account_id = Some x\<rparr>
            \<noteq> IssueAssignment_to_jira_format \<lparr>account_id = None\<rparr>)"
  by (simp add: IssueAssignment_to_jira_format_def if_truthy_def)

text \<open>C7, witness: the account id of the unit tests.\<close>

theorem assignment_payload_witness:
  "IssueAssignment_to_jira_format \<lparr>account_id = Some ''12345''\<rparr>
     = JObj [(''accountId'', JStr ''12345'')]
   \<and> IssueAssignment_to_jira_format \<lparr>account_id = Some ''12345''\<rparr>
       \<noteq> IssueAssignment_to_jira_format \<lparr>account_id = None\<rparr>"
  using assignment_payload [of "''12345''"] by simp

section \<open>The error hierarchy\<close>

lemmas new_error_defs = new_JiraAPIError_def new_JiraAuthenticationError_def
  new_JiraPermissionError_def new_JiraNotFoundError_def new_JiraValidationError_def
  new_JiraRateLimitError_def new_JiraServerError_def JiraAPIError_init_def default_arg_def

lemmas lower_defs = ascii_lower_def ascii_lower_char_def

lemmas fixture_defs = fixture_http_def fixture_client_def fixture_user_def
  fixture_transition_def fixture_transitions_def

lemma str_of_int_codes:
  "str_of_int 401 = ''401''" "str_of_int 403 = ''403''" "str_of_int 404 = ''404''"
  "str_of_int 400 = ''400''" "str_of_int 429 = ''429''" "str_of_int 500 = ''500''"
  by (simp_all add: str_of_int_def str_of_nat.simps)

lemma str_with_code:
  "status_code e = Some c \<Longrightarrow> c \<noteq> 0 \<Longrightarrow>
   JiraAPIError_str e = ''JIRA API Error ('' @ str_of_int c @ ''): '' @ message e"
  by (simp add: JiraAPIError_str_def)

lemma str_without_code:
  "status_code e = None \<or> status_code e = Some 0 \<Longrightarrow>
   JiraAPIError_str e = ''JIRA API Error: '' @ message e"
  by (auto simp add: JiraAPIError_str_def)

text \<open>
  C8 (as amended). The rendering of an error is \<open>JIRA API Error (<code>): <message>\<close> when
  it carries a non-zero status code and \<open>JIRA API Error: <message>\<close> otherwise, that is
  when it carries no code or the code zero. The prefix is the same fixed text for every
  class of the hierarchy; the six specific classes show through their fixed codes 401,
  403, 404, 400, 429 and 500 only.
\<close>

theorem error_rendering:
  "(status_code e = Some c \<and> c \<noteq> 0 \<longrightarrow>
      JiraAPIError_str e = ''JIRA API Error ('' @ str_of_int c @ ''): '' @ message e)
   \<and> (status_code e = None \<longrightarrow> JiraAPIError_str e = ''JIRA API Error: '' @ message e)
   \<and> (status_code e = Some 0 \<longrightarrow> JiraAPIError_str e = ''JIRA API Error: '' @ message e)
   \<and> JiraAPIError_str (new_JiraAuthenticationError (Some m)) = ''JIRA API Error (401): '' @ m
   \<and> JiraAPIError_str (new_JiraPermissionError (Some m)) = ''JIRA API Error (403): '' @ m
   \<and> JiraAPIError_str (new_JiraNotFoundError (Some m)) = ''JIRA API Error (404): '' @ m
   \<and> JiraAPIError_str (new_JiraValidationError (Some m)) = ''JIRA API Error (400): '' @ m
   \<and> JiraAPIError_str (new_JiraRateLimitError (Some m)) = ''JIRA API Error (429): '' @ m
   \<and> JiraAPIError_str (new_JiraServerError (Some m)) = ''JIRA API Error (500): '' @ m
   \<and> JiraAPIError_str (new_JiraAPIError m None None) = ''JIRA API Error: '' @ m"
  using str_with_code [of e c] str_without_code [of e]
  by (simp add: JiraAPIError_str_def new_error_defs str_of_int_codes)

text \<open>
  C8, witness: the two base-class errors of the unit tests, with and without a code, and
  a base-class error with the code zero.
\<close>

theorem error_rendering_witness:
  "JiraAPIError_str (new_JiraAPIError ''Bad request'' (Some 400) None)
     = ''JIRA API Error (400): Bad request''
   \<and> JiraAPIError_str (new_JiraAPIError ''Something went wrong'' None None)
     = ''JIRA API Error: Something went wrong''
   \<and> JiraAPIError_str (new_JiraAPIError ''No status'' (Some 0) None)
     = ''JIRA API Error: No status''"
  using error_rendering [of "new_JiraAPIError ''Bad request'' (Some 400) None" 400]
    error_rendering [of "new_JiraAPIError ''Something went wrong'' None None"]
    error_rendering [of "new_JiraAPIError ''No status'' (Some 0) None"]
  by (simp add: new_error_defs str_of_int_codes)

text \<open>
  C8, counterexample to the claim as stated: the text before the code does not identify
  the failure kind. An authentication error and a permission error render with the same
  prefix, and a validation error renders exactly as a base-class error with code 400
  and the same message, although the two are of different classes.
\<close>

theorem error_rendering_kind_not_shown:
  "JiraAPIError_str (new_JiraAuthenticationError None)
     = ''JIRA API Error (401): Authentication failed''
   \<and> JiraAPIError_str (new_JiraPermissionError None)
     = ''JIRA API Error (403): Permission denied''
   \<and> JiraAPIError_str (new_JiraValidationError (Some ''Bad request''))
     = JiraAPIError_str (new_JiraAPIError ''Bad request'' (Some 400) None)
   \<and> cls (new_JiraValidationError (Some ''Bad request''))
     \<noteq> cls (new_JiraAPIError ''Bad request'' (Some 400) None)"
  by (simp add: JiraAPIError_str_def new_error_defs str_of_int_codes)

section \<open>The transport\<close>

text \<open>The characters of a str are its code points, not its bytes.\<close>

lemma code_points_example:
  "code_points [CHR 0x61, CHR 0xC3, CHR 0xA9, CHR 0x62]
     = [[CHR 0x61], [CHR 0xC3, CHR 0xA9], [CHR 0x62]]"
  by (simp add: is_continuation_def)

lemma concat_code_points: "concat (code_points s) = s"
  by (induction s rule: code_points.induct) simp_all

lemma strs_of_map_JStr: "strs_of (map JStr msgs) = Some msgs"
  by (induction msgs) simp_all

lemma error_msg_list:
  "response_json response = Inr (JObj d) \<Longrightarrow>
   map_of d ''errorMessages'' = Some (JArr (map JStr msgs)) \<Longrightarrow>
   error_msg_from_body fallback response = join ''; '' msgs"
  by (simp add: error_msg_from_body_def join_items_def strs_of_map_JStr)

lemma error_msg_unparsable:
  "response_json response = Inl e \<Longrightarrow> error_msg_from_body fallback response = fallback"
  by (simp add: error_msg_from_body_def)

lemma error_msg_absent:
  "response_json response = Inr (JObj d) \<Longrightarrow> map_of d ''errorMessages'' = None \<Longrightarrow>
   error_msg_from_body fallback response = fallback"
  by (simp add: error_msg_from_body_def)

lemma error_msg_no_object:
  "response_json response = Inr v \<Longrightarrow> \<not> is_object v \<Longrightarrow>
   error_msg_from_body fallback response = fallback"
  by (cases v) (simp_all add: error_msg_from_body_def is_object_def)

lemma error_msg_rejected:
  "response_json response = Inr (JObj d) \<Longrightarrow> map_of d ''errorMessages'' = Some v \<Longrightarrow>
   join_items v = None \<Longrightarrow> error_msg_from_body fallback response = fallback"
  by (simp add: error_msg_from_body_def)

lemma handle_401:
  "response_status_code response = 401 \<Longrightarrow>
   handle_response response = Inl (JiraExn \<lparr>cls = JiraAuthenticationError,
     message = ''Invalid credentials or expired token'', status_code = Some 401,
     response_data = []\<rparr>)"
  by (simp add: handle_response_def new_error_defs)

lemma handle_403:
  "response_status_code response = 403 \<Longrightarrow>
   handle_response response = Inl (JiraExn \<lparr>cls = JiraPermissionError,
     message = ''Insufficient permissions for this operation'', status_code = Some 403,
     response_data = []\<rparr>)"
  by (simp add: handle_response_def new_error_defs)

lemma handle_404:
  "response_status_code response = 404 \<Longrightarrow>
   handle_response response = Inl (JiraExn \<lparr>cls = JiraNotFoundError,
     message = ''Resource not found'', status_code = Some 404, response_data = []\<rparr>)"
  by (simp add: handle_response_def new_error_defs)

lemma handle_400:
  "response_status_code response = 400 \<Longrightarrow>
   handle_response response = Inl (JiraExn \<lparr>cls = JiraValidationError,
     message = error_msg_from_body ''Bad request'' response, status_code = Some 400,
     response_data = []\<rparr>)"
  by (simp add: handle_response_def new_error_defs)

lemma handle_429:
  "response_status_code response = 429 \<Longrightarrow>
   handle_response response = Inl (JiraExn \<lparr>cls = JiraRateLimitError,
     message = ''Rate limit exceeded'', status_code = Some 429, response_data = []\<rparr>)"
  by (simp add: handle_response_def new_error_defs)

lemma handle_5xx:
  "response_status_code response \<ge> 500 \<Longrightarrow>
   handle_response response = Inl (JiraExn \<lparr>cls = JiraServerError,
     message = ''Server error: '' @ str_of_int (response_status_code response),
     status_code = Some 500, response_data = []\<rparr>)"
  by (simp add: handle_response_def new_error_defs Let_def)

lemma handle_other_4xx:
  "400 \<le> response_status_code response \<Longrightarrow> response_status_code response < 500 \<Longrightarrow>
   response_status_code response \<notin> {400, 401, 403, 404, 429} \<Longrightarrow>
   handle_response response = Inl (JiraExn \<lparr>cls = JiraAPIError,
     message = error_msg_from_body (''HTTP '' @ str_of_int (response_status_code response))
                 response,
     status_code = Some (response_status_code response), response_data = []\<rparr>)"
  by (simp add: handle_response_def new_error_defs Let_def)

lemma handle_no_content:
  "response_status_code response < 400 \<Longrightarrow>
   response_status_code response = 204 \<or> response_content response = [] \<Longrightarrow>
   handle_response response = Inr (JObj [])"
  by (auto simp add: handle_response_def Let_def)

lemma handle_json:
  "response_status_code response < 400 \<Longrightarrow> response_status_code response \<noteq> 204 \<Longrightarrow>
   response_content response \<noteq> [] \<Longrightarrow> response_json response = Inr v \<Longrightarrow>
   handle_response response = Inr v"
  by (auto simp add: handle_response_def Let_def)

lemma handle_decode_failure:
  "response_status_code response < 400 \<Longrightarrow> response_status_code response \<noteq> 204 \<Longrightarrow>
   response_content response \<noteq> [] \<Longrightarrow> response_json response = Inl e \<Longrightarrow>
   handle_response response = Inl (JiraExn \<lparr>cls = JiraAPIError,
     message = ''Failed to parse response JSON: '' @ e, status_code = None,
     response_data = []\<rparr>)"
  by (auto simp add: handle_response_def Let_def new_error_defs)

lemma make_request_response:
  "client_request http_method endpoint params json_data s = (Inr response, s1) \<Longrightarrow>
   make_request client_request http_method endpoint params json_data s
     = (handle_response response, s1)"
  by (simp add: make_request_def)

lemma make_request_failure:
  "client_request http_method endpoint params json_data s = (Inl err, s1) \<Longrightarrow>
   make_request client_request http_method endpoint params json_data s
     = (Inl (JiraExn \<lparr>cls = JiraAPIError, message = ''Request failed: '' @ err,
          status_code = None, response_data = []\<rparr>), s1)"
  by (simp add: make_request_def new_error_defs)

text \<open>
  C2 (as amended). When the HTTP client fails with a network error, \<open>_make_request\<close>
  raises an error of the base class \<open>JiraAPIError\<close> with no status code; when it returns a
  response, \<open>_make_request\<close> returns what the status dispatch gives for it. The dispatch
  raises: for 401 the authentication error, for 403 the permission error, for 404 the
  not-found error, for 400 the validation error, for 429 the rate-limit error, for every
  status from 500 up the server error, and for every other status from 400 to 499 an
  error of the base class with that status as its code. The message read from an error
  body is the strings of the list under \<open>errorMessages\<close> joined with \<open>; \<close> when the body is
  a JSON object with such a list, and the fallback (\<open>Bad request\<close> for 400) when the body
  is not JSON, is no JSON object, has no such key, or holds under it a value that \<open>join\<close>
  rejects. For a status below 400, a 204 status or an empty body returns the empty
  object, a non-empty body that parses is returned, and a non-empty body that fails to
  parse raises an error of the base class \<open>JiraAPIError\<close> with no status code and the
  message \<open>Failed to parse response JSON: ...\<close>: the class of the network failure and of
  the unmapped 4xx status, not a class of its own.
\<close>

theorem status_code_mapping:
  "(client_request http_method endpoint params json_data s = (Inl err, s1) \<longrightarrow>
      make_request client_request http_method endpoint params json_data s
        = (Inl (JiraExn \<lparr>cls = JiraAPIError, message = ''Request failed: '' @ err,
             status_code = None, response_data = []\<rparr>), s1))
    \<and> (client_request http_method endpoint params json_data s = (Inr response, s1) \<longrightarrow>
      make_request client_request http_method endpoint params json_data s
        = (handle_response response, s1))
    \<and> (response_status_code response = 401 \<longrightarrow>
         handle_response response = Inl (JiraExn \<lparr>cls = JiraAuthenticationError,
           message = ''Invalid credentials or expired token'', status_code = Some 401,
           response_data = []\<rparr>))
    \<and> (response_status_code response = 403 \<longrightarrow>
         handle_response response = Inl (JiraExn \<lparr>cls = JiraPermissionError,
           message = ''Insufficient permissions for this operation'', status_code = Some 403,
           response_data = []\<rparr>))
    \<and> (response_status_code response = 404 \<longrightarrow>
         handle_response response = Inl (JiraExn \<lparr>cls = JiraNotFoundError,
           message = ''Resource not found'', status_code = Some 404, response_data = []\<rparr>))
    \<and> (response_status_code response = 400 \<longrightarrow>
         handle_response response = Inl (JiraExn \<lparr>cls = JiraValidationError,
           message = error_msg_from_body ''Bad request'' response, status_code = Some 400,
           response_data = []\<rparr>))
    \<and> (response_json response = Inr (JObj d)
          \<and> map_of d ''errorMessages'' = Some (JArr (map JStr msgs)) \<longrightarrow>
         error_msg_from_body fallback response = join ''; '' msgs)
    \<and> (response_json response = Inr (JObj d) \<and> map_of d ''errorMessages'' = None \<longrightarrow>
         error_msg_from_body fallback response = fallback)
    \<and> (response_json response = Inr (JObj d) \<and> map_of d ''errorMessages'' = Some v
          \<and> join_items v = None \<longrightarrow>
         error_msg_from_body fallback response = fallback)
    \<and> (response_json response = Inr v \<and> \<not> is_object v \<longrightarrow>
         error_msg_from_body fallback response = fallback)
    \<and> (response_json response = Inl e \<longrightarrow>
         error_msg_from_body fallback response = fallback)
    \<and> (response_status_code response = 429 \<longrightarrow>
         handle_response response = Inl (JiraExn \<lparr>cls = JiraRateLimitError,
           message = ''Rate limit exceeded'', status_code = Some 429, response_data = []\<rparr>))
    \<and> (response_status_code response \<ge> 500 \<longrightarrow>
         handle_response response = Inl (JiraExn \<lparr>cls = JiraServerError,
           message = ''Server error: '' @ str_of_int (response_status_code response),
           status_code = Some 500, response_data = []\<rparr>))
    \<and> (400 \<le> response_status_code response \<and> response_status_code response < 500
          \<and> response_status_code response \<notin> {400, 401, 403, 404, 429} \<longrightarrow>
         handle_response response = Inl (JiraExn \<lparr>cls = JiraAPIError,
           message = error_msg_from_body
                       (''HTTP '' @ str_of_int (response_status_code response)) response,
           status_code = Some (response_status_code response), response_data = []\<rparr>))
    \<and> (response_status_code response < 400
          \<and> (response_status_code response = 204 \<or> response_content response = []) \<longrightarrow>
         handle_response response = Inr (JObj []))
    \<and> (response_status_code response < 400 \<and> response_status_code response \<noteq> 204
          \<and> response_content response \<noteq> [] \<and> response_json response = Inr v \<longrightarrow>
         handle_response response = Inr v)
    \<and> (response_status_code response < 400 \<and> response_status_code response \<noteq> 204
          \<and> response_content response \<noteq> [] \<and> response_json response = Inl e \<longrightarrow>
         handle_response response = Inl (JiraExn \<lparr>cls = JiraAPIError,
           message = ''Failed to parse response JSON: '' @ e, status_code = None,
           response_data = []\<rparr>))"
  by (intro conjI impI)
     (simp_all add: make_request_response make_request_failure handle_401 handle_403
        handle_404 handle_400 handle_429 handle_5xx handle_other_4xx handle_no_content
        handle_json handle_decode_failure error_msg_list error_msg_absent
        error_msg_rejected error_msg_no_object error_msg_unparsable)

text \<open>
  C2, witness: one response for each line of the mapping, among them the unmapped status
  418, and a request that fails on the network.
\<close>

theorem status_code_mapping_witness:
  "make_request (const_http (Inr (no_content 401))) ''GET'' ''issue/PROJ-1'' None None ()
     = (Inl (JiraExn \<lparr>cls = JiraAuthenticationError,
          message = ''Invalid credentials or expired token'', status_code = Some 401,
          response_data = []\<rparr>), ())
   \<and> make_request (const_http (Inr (no_content 403))) ''GET'' ''issue/PROJ-1'' None None ()
     = (Inl (JiraExn \<lparr>cls = JiraPermissionError,
          message = ''Insufficient permissions for this operation'', status_code = Some 403,
          response_data = []\<rparr>), ())
   \<and> make_request (const_http (Inr (no_content 404))) ''GET'' ''issue/PROJ-1'' None None ()
     = (Inl (JiraExn \<lparr>cls = JiraNotFoundError, message = ''Resource not found'',
          status_code = Some 404, response_data = []\<rparr>), ())
   \<and> make_request (const_http (Inr validation_errors)) ''GET'' ''issue/PROJ-1'' None None ()
     = (Inl (JiraExn \<lparr>cls = JiraValidationError, message = ''Field is required; Bad key'',
          status_code = Some 400, response_data = []\<rparr>), ())
   \<and> make_request (const_http (Inr (error_page 400))) ''GET'' ''issue/PROJ-1'' None None ()
     = (Inl (JiraExn \<lparr>cls = JiraValidationError, message = ''Bad request'',
          status_code = Some 400, response_data = []\<rparr>), ())
   \<and> make_request (const_http (Inr (no_content 429))) ''GET'' ''issue/PROJ-1'' None None ()
     = (Inl (JiraExn \<lparr>cls = JiraRateLimitError, message = ''Rate limit exceeded'',
          status_code = Some 429, response_data = []\<rparr>), ())
   \<and> make_request (const_http (Inr (error_page 503))) ''GET'' ''issue/PROJ-1'' None None ()
     = (Inl (JiraExn \<lparr>cls = JiraServerError, message = ''Server error: 503'',
          status_code = Some 500, response_data = []\<rparr>), ())
   \<and> make_request (const_http (Inr (error_page 418))) ''GET'' ''issue/PROJ-1'' None None ()
     = (Inl (JiraExn \<lparr>cls = JiraAPIError, message = ''HTTP 418'',
          status_code = Some 418, response_data = []\<rparr>), ())
   \<and> make_request (const_http (Inr (no_content 204))) ''GET'' ''issue/PROJ-1'' None None ()
     = (Inr (JObj []), ())
   \<and> make_request (const_http (Inr (no_content 200))) ''GET'' ''issue/PROJ-1'' None None ()
     = (Inr (JObj []), ())
   \<and> make_request (const_http (Inr (error_page 200))) ''GET'' ''issue/PROJ-1'' None None ()
     = (Inl (JiraExn \<lparr>cls = JiraAPIError,
          message = ''Failed to parse response JSON: Expecting value'', status_code = None,
          response_data = []\<rparr>), ())
   \<and> make_request (const_http (Inl ''timed out'')) ''GET'' ''issue/PROJ-1'' None None ()
     = (Inl (JiraExn \<lparr>cls = JiraAPIError, message = ''Request failed: timed out'',
          status_code = None, response_data = []\<rparr>), ())"
  using
    status_code_mapping
      [where client_request = "const_http (Inr (no_content 401))"
         and http_method = "''GET''" and endpoint = "''issue/PROJ-1''" and params = None
         and json_data = None and s = "()" and ?s1.0 = "()" and err = "''timed out''"
         and response = "no_content 401" and d = error_body
         and msgs = "[''Field is required'', ''Bad key'']" and fallback = "''Bad request''"
         and v = JNull and e = "''Expecting value''"]
    status_code_mapping
      [where client_request = "const_http (Inr (no_content 403))"
         and http_method = "''GET''" and endpoint = "''issue/PROJ-1''" and params = None
         and json_data = None and s = "()" and ?s1.0 = "()" and err = "''timed out''"
         and response = "no_content 403" and d = error_body
         and msgs = "[''Field is required'', ''Bad key'']" and fallback = "''Bad request''"
         and v = JNull and e = "''Expecting value''"]
    status_code_mapping
      [where client_request = "const_http (Inr (no_content 404))"
         and http_method = "''GET''" and endpoint = "''issue/PROJ-1''" and params = None
         and json_data = None and s = "()" and ?s1.0 = "()" and err = "''timed out''"
         and response = "no_content 404" and d = error_body
         and msgs = "[''Field is required'', ''Bad key'']" and fallback = "''Bad request''"
         and v = JNull and e = "''Expecting value''"]
    status_code_mapping
      [where client_request = "const_http (Inr validation_errors)"
         and http_method = "''GET''" and endpoint = "''issue/PROJ-1''" and params = None
         and json_data = None and s = "()" and ?s1.0 = "()" and err = "''timed out''"
         and response = validation_errors and d = error_body
         and msgs = "[''Field is required'', ''Bad key'']" and fallback = "''Bad request''"
         and v = JNull and e = "''Expecting value''"]
    status_code_mapping
      [where client_request = "const_http (Inr (error_page 400))"
         and http_method = "''GET''" and endpoint = "''issue/PROJ-1''" and params = None
         and json_data = None and s = "()" and ?s1.0 = "()" and err = "''timed out''"
         and response = "error_page 400" and d = error_body
         and msgs = "[''Field is required'', ''Bad key'']" and fallback = "''Bad request''"
         and v = JNull and e = "''Expecting value''"]
    status_code_mapping
      [where client_request = "const_http (Inr (no_content 429))"
         and http_method = "''GET''" and endpoint = "''issue/PROJ-1''" and params = None
         and json_data = None and s = "()" and ?s1.0 = "()" and err = "''timed out''"
         and response = "no_content 429" and d = error_body
         and msgs = "[''Field is required'', ''Bad key'']" and fallback = "''Bad request''"
         and v = JNull and e = "''Expecting value''"]
    status_code_mapping
      [where client_request = "const_http (Inr (error_page 503))"
         and http_method = "''GET''" and endpoint = "''issue/PROJ-1''" and params = None
         and json_data = None and s = "()" and ?s1.0 = "()" and err = "''timed out''"
         and response = "error_page 503" and d = error_body
         and msgs = "[''Field is required'', ''Bad key'']" and fallback = "''Bad request''"
         and v = JNull and e = "''Expecting value''"]
    status_code_mapping
      [where client_request = "const_http (Inr (error_page 418))"
         and http_method = "''GET''" and endpoint = "''issue/PROJ-1''" and params = None
         and json_data = None and s = "()" and ?s1.0 = "()" and err = "''timed out''"
         and response = "error_page 418" and d = error_body
         and msgs = "[''Field is required'', ''Bad key'']" and fallback = "''HTTP 418''"
         and v = JNull and e = "''Expecting value''"]
    status_code_mapping
      [where client_request = "const_http (Inr (no_content 204))"
         and http_method = "''GET''" and endpoint = "''issue/PROJ-1''" and params = None
         and json_data = None and s = "()" and ?s1.0 = "()" and err = "''timed out''"
         and response = "no_content 204" and d = error_body
         and msgs = "[''Field is required'', ''Bad key'']" and fallback = "''Bad request''"
         and v = JNull and e = "''Expecting value''"]
    status_code_mapping
      [where client_request = "const_http (Inr (no_content 200))"
         and http_method = "''GET''" and endpoint = "''issue/PROJ-1''" and params = None
         and json_data = None and s = "()" and ?s1.0 = "()" and err = "''timed out''"
         and response = "no_content 200" and d = error_body
         and msgs = "[''Field is required'', ''Bad key'']" and fallback = "''Bad request''"
         and v = JNull and e = "''Expecting value''"]
    status_code_mapping
      [where client_request = "const_http (Inr (error_page 200))"
         and http_method = "''GET''" and endpoint = "''issue/PROJ-1''" and params = None
         and json_data = None and s = "()" and ?s1.0 = "()" and err = "''timed out''"
         and response = "error_page 200" and d = error_body
         and msgs = "[''Field is required'', ''Bad key'']" and fallback = "''Bad request''"
         and v = JNull and e = "''Expecting value''"]
    status_code_mapping
      [where client_request = "const_http (Inl ''timed out'')" and http_method = "''GET''"
         and endpoint = "''issue/PROJ-1''" and params = None and json_data = None
         and s = "()" and ?s1.0 = "()" and err = "''timed out''"
         and response = "no_content 200" and d = error_body
         and msgs = "[''Field is required'', ''Bad key'']" and fallback = "''Bad request''"
         and v = JNull and e = "''Expecting value''"]
  by (simp add: const_http_def error_page_def no_content_def validation_errors_def
        error_body_def str_of_int_def str_of_nat.simps is_object_def)

text \<open>
  C2, counterexample to the claim as stated: the error raised for a success status with
  a body that is not JSON is of no class of its own. It has the class of the error raised
  when the request itself fails and of the error raised for an unmapped 4xx status.
\<close>

theorem decode_failure_kind_not_distinct:
  "raised_class (fst (make_request (const_http (Inr (error_page 200)))
       ''GET'' ''issue/PROJ-1'' None None ())) = Some (JiraClass JiraAPIError)
   \<and> raised_class (fst (make_request (const_http (Inl ''timed out''))
       ''GET'' ''issue/PROJ-1'' None None ())) = Some (JiraClass JiraAPIError)
   \<and> raised_class (fst (make_request (const_http (Inr (error_page 418)))
       ''GET'' ''issue/PROJ-1'' None None ())) = Some (JiraClass JiraAPIError)"
  by (simp add: make_request_def const_http_def error_page_def handle_response_def
        raised_class_def new_error_defs)

section \<open>Resolution by name\<close>








lemma find_transition_id_find:
  "find_transition_id lower transitions nm =
     map_option tr_id (find (\<lambda>t. lower (tr_name t) = lower nm) transitions)"
  by (induction transitions) simp_all

text \<open>
  C3 (as amended). Whatever function \<open>lower\<close> the library's \<open>str.lower\<close> is: when the live
  transition list is \<open>transitions\<close>, the first transition whose name equals the requested
  one after \<open>lower\<close> is applied to both is performed (its id being non-empty), and when
  no transition matches the call raises \<open>ValueError\<close>, a built-in exception outside the
  error hierarchy and not the validation error of the issue-type resolution; its message
  ends with all the transition names, joined with a comma and a space.
\<close>

theorem transition_resolution:
  assumes "get_issue_transitions client issue_key s = (Inr transitions, s1)"
  shows "(find (\<lambda>t. lower (tr_name t) = lower transition_name) transitions = Some t
            \<and> tr_id t \<noteq> [] \<longrightarrow>
          transition_issue_by_name lower client issue_key transition_name cmt resolution s
            = transition_issue client issue_key
                \<lparr>transition_id = tr_id t, comment = cmt, resolution_name = resolution\<rparr> s1)
       \<and> (find (\<lambda>t. lower (tr_name t) = lower transition_name) transitions = None \<longrightarrow>
          transition_issue_by_name lower client issue_key transition_name cmt resolution s
            = (Inl (ValueError (''Transition '' @ quoted transition_name
                                @ '' not found. Available transitions: ''
                                @ join '', '' (map tr_name transitions))), s1))"
  using assms
  by (simp add: transition_issue_by_name_def find_transition_id_find if_truthy_def)

text \<open>
  C3, witness: with the transitions Start Progress (11) and Done (31), the name
  \<open>start progress\<close> performs transition 11 and the name \<open>Reopen\<close> raises \<open>ValueError\<close>.
  All names are ASCII text, on which \<open>str.lower\<close> is \<open>ascii_lower\<close>.
\<close>

theorem transition_resolution_witness:
  "transition_issue_by_name ascii_lower (fixture_client [] fixture_transitions)
       ''PROJ-1'' ''start progress'' None None []
     = transition_issue (fixture_client [] fixture_transitions) ''PROJ-1''
         \<lparr>transition_id = ''11'', comment = None, resolution_name = None\<rparr> []
   \<and> transition_issue_by_name ascii_lower (fixture_client [] fixture_transitions)
       ''PROJ-1'' ''Reopen'' None None []
     = (Inl (ValueError
          ''Transition 'Reopen' not found. Available transitions: Start Progress, Done''), [])"
  using
    transition_resolution
      [where client = "fixture_client [] fixture_transitions" and issue_key = "''PROJ-1''"
         and s = "[]" and transitions = fixture_transitions and ?s1.0 = "[]"
         and lower = ascii_lower and transition_name = "''start progress''"
         and t = fixture_transition and cmt = None and resolution = None]
    transition_resolution
      [where client = "fixture_client [] fixture_transitions" and issue_key = "''PROJ-1''"
         and s = "[]" and transitions = fixture_transitions and ?s1.0 = "[]"
         and lower = ascii_lower and transition_name = "''Reopen''"
         and t = fixture_transition and cmt = None and resolution = None]
  by (simp add: fixture_defs lower_defs quoted_def)

text \<open>
  C3, counterexample to the claim as stated: a transition name that matches nothing
  raises \<open>ValueError\<close>, an issue-type name that matches nothing raises
  \<open>JiraValidationError\<close>; the two failures are not of the same kind. All names are ASCII
  text, on which \<open>str.lower\<close> is \<open>ascii_lower\<close>.
\<close>

theorem transition_failure_kind_differs:
  "raised_class (fst (transition_issue_by_name ascii_lower
       (fixture_client [] fixture_transitions) ''PROJ-1'' ''Reopen'' None None []))
     = Some ValueErrorClass
   \<and> raised_class (fst (get_issue_type_id_by_name ascii_lower (make_request fixture_http)
       ''PROJ'' ''Feature'' [])) = Some (JiraClass JiraValidationError)
   \<and> raised_class (fst (transition_issue_by_name ascii_lower
       (fixture_client [] fixture_transitions) ''PROJ-1'' ''Reopen'' None None []))
     \<noteq> raised_class (fst (get_issue_type_id_by_name ascii_lower (make_request fixture_http)
       ''PROJ'' ''Feature'' []))"
  by (simp add: transition_issue_by_name_def get_issue_type_id_by_name_def
        get_project_issue_types_def make_request_def handle_response_def py_get_def
        py_iter_def py_lower_def py_getitem_def if_truthy_def raised_class_def
        fixture_defs lower_defs new_error_defs)

section \<open>Creating an issue for an assignee that cannot be resolved\<close>

lemma first_email_match_none:
  "\<forall>u \<in> set users. \<not> email_matches lower u email \<Longrightarrow>
   first_email_match lower users email = None"
  by (induction users) simp_all

lemma get_user_by_email_none:
  "search_users client email 1 s = (Inr users, s1) \<Longrightarrow>
   \<forall>u \<in> set users. \<not> email_matches lower u email \<Longrightarrow>
   get_user_by_email lower client email s = (Inr None, s1)"
  by (simp add: get_user_by_email_def first_email_match_none)

lemma create_payload_no_assignee:
  "assignee_account_id issue_data = None \<Longrightarrow>
   payload_field (IssueCreate_to_jira_format issue_data) ''fields'' ''assignee'' = None"
  by (simp add: IssueCreate_to_jira_format_def payload_field_def Let_def if_truthy_None
        map_of_if_truthy_other map_of_dict_set del: dict_set.simps)

text \<open>
  C10. Whatever function \<open>lower\<close> the library's \<open>str.lower\<close> is: when \<open>create_issue\<close> is
  given a non-empty assignee email and the user search returns no user whose email
  matches it (a non-empty email equal to the requested one after \<open>lower\<close> is applied to
  both), the service raises nothing itself: it goes on to the client's \<open>create_issue\<close>
  with no assignee account id, so the create payload has no \<open>assignee\<close> field. In the same
  situation \<open>assign_issue_by_email\<close> raises \<open>ValueError\<close>.
\<close>

theorem create_issue_unresolved_assignee:
  assumes "assignee_email \<noteq> []"
    and "search_users client assignee_email 1 s = (Inr users, s1)"
    and "\<forall>u \<in> set users. \<not> email_matches lower u assignee_email"
  shows "create_issue lower client pid summ itid descr prio (Some assignee_email) lbls s
           = client_create_issue client
               \<lparr>project_id = pid, create_summary = summ, create_description = descr,
                issue_type_id = itid, create_priority_id = prio, assignee_account_id = None,
                reporter_account_id = None,
                labels = (case lbls of None \<Rightarrow> [] | Some l \<Rightarrow> l)\<rparr> s1
       \<and> payload_field (IssueCreate_to_jira_format
               \<lparr>project_id = pid, create_summary = summ, create_description = descr,
                issue_type_id = itid, create_priority_id = prio, assignee_account_id = None,
                reporter_account_id = None,
                labels = (case lbls of None \<Rightarrow> [] | Some l \<Rightarrow> l)\<rparr>)
             ''fields'' ''assignee'' = None
       \<and> assign_issue_by_email lower client issue_key assignee_email s
           = (Inl (ValueError (''User with email '' @ quoted assignee_email @ '' not found'')),
              s1)"
  using assms get_user_by_email_none [of client assignee_email s users s1 lower]
  by (simp add: create_issue_def assign_issue_by_email_def if_truthy_Some
        create_payload_no_assignee)

text \<open>
  C10, witness: the search returns one user with another email. The issue is created,
  the remote system has received one \<open>POST\<close> whose payload has no assignee, and
  \<open>assign_issue_by_email\<close> fails for the same email. Both emails are ASCII text, on which
  \<open>str.lower\<close> is \<open>ascii_lower\<close>.
\<close>

theorem create_issue_unresolved_assignee_witness:
  "create_issue ascii_lower (fixture_client [fixture_user] []) ''10000'' ''Test issue''
       ''10001'' None None (Some ''nobody@example.com'') None []
     = (Inr (JStr ''PROJ-1''),
        [(''POST'', ''issue'',
          Some (JObj [(''fields'', JObj [(''project'', JObj [(''id'', JStr ''10000'')]),
                                         (''summary'', JStr ''Test issue''),
                                         (''issuetype'', JObj [(''id'', JStr ''10001'')])])]))])
   \<and> assign_issue_by_email ascii_lower (fixture_client [fixture_user] []) ''PROJ-1''
       ''nobody@example.com'' []
     = (Inl (ValueError ''User with email 'nobody@example.com' not found''), [])"
  using create_issue_unresolved_assignee
      [where assignee_email = "''nobody@example.com''"
         and client = "fixture_client [fixture_user] []" and s = "[]"
         and users = "[fixture_user]" and ?s1.0 = "[]" and lower = ascii_lower
         and pid = "''10000''" and summ = "''Test issue''" and itid = "''10001''"
         and descr = None and prio = None and lbls = None and issue_key = "''PROJ-1''"]
  by (simp add: fixture_defs email_matches_def lower_defs quoted_def
        JiraClient_create_issue_def IssueCreate_to_jira_format_def if_truthy_None
        make_request_def handle_response_def py_get_def py_truthy_def)

end
